theory Spec2Isabelle
  imports Main "HOL-Library.Sublist"
begin

section \<open>Strings\<close>

text \<open>
  A JavaScript string is a sequence of UTF-16 code units. The model uses Isabelle
  strings: lists of 8-bit characters, read as the code units U+0000 to U+00FF
  (Latin-1). The regular expressions and the keywords of the source are ASCII, and
  none of them uses the \<open>u\<close> flag.
\<close>

definition code_unit :: "char \<Rightarrow> nat" where
  "code_unit c = of_char c"

text \<open>\<open>String.prototype.toLowerCase\<close> on the code units below 256.\<close>

definition lower_char :: "char \<Rightarrow> char" where
  "lower_char c =
     (let n = code_unit c in
      if (65 \<le> n \<and> n \<le> 90) \<or> (192 \<le> n \<and> n \<le> 214) \<or> (216 \<le> n \<and> n \<le> 222)
      then char_of (n + 32) else c)"

definition toLowerCase :: "string \<Rightarrow> string" where
  "toLowerCase s = map lower_char s"

text \<open>\<open>String.prototype.includes\<close>: \<open>p\<close> occurs in \<open>s\<close> as a contiguous substring.\<close>

fun str_includes :: "string \<Rightarrow> string \<Rightarrow> bool" where
  "str_includes [] p = (p = [])"
| "str_includes (c # cs) p = (prefix p (c # cs) \<or> str_includes cs p)"

definition startsWith :: "string \<Rightarrow> string \<Rightarrow> bool" where
  "startsWith s p = prefix p s"

section \<open>Regular expressions\<close>

text \<open>
  The character classes that occur in the regular expressions of the source.
  With the \<open>i\<close> flag and without the \<open>u\<close> flag, a pattern character matches an
  input character when both have the same canonical form, which is the upper-case
  form for the ASCII letters; a code unit of 128 or more never has an ASCII
  canonical form.
\<close>

datatype cls =
    Ch char          \<comment> \<open>that character\<close>
  | ChI char         \<comment> \<open>that character, under the \<open>i\<close> flag\<close>
  | Word             \<comment> \<open>\<open>\w\<close>\<close>
  | Space            \<comment> \<open>\<open>\s\<close>\<close>
  | Digit            \<comment> \<open>\<open>\d\<close>\<close>
  | NotCh char       \<comment> \<open>\<open>[^c]\<close>\<close>
  | WordBrackets     \<comment> \<open>\<open>[\w\[\]]\<close>\<close>

definition canonicalize :: "char \<Rightarrow> char" where
  "canonicalize c =
     (let n = code_unit c in if 97 \<le> n \<and> n \<le> 122 then char_of (n - 32) else c)"

definition is_word :: "char \<Rightarrow> bool" where
  "is_word c =
     (let n = code_unit c in
      (48 \<le> n \<and> n \<le> 57) \<or> (65 \<le> n \<and> n \<le> 90) \<or> n = 95 \<or> (97 \<le> n \<and> n \<le> 122))"

definition is_space :: "char \<Rightarrow> bool" where
  "is_space c = (let n = code_unit c in (9 \<le> n \<and> n \<le> 13) \<or> n = 32 \<or> n = 160)"

definition is_digit :: "char \<Rightarrow> bool" where
  "is_digit c = (let n = code_unit c in 48 \<le> n \<and> n \<le> 57)"

fun cls_match :: "cls \<Rightarrow> char \<Rightarrow> bool" where
  "cls_match (Ch a) c = (c = a)"
| "cls_match (ChI a) c = (canonicalize c = canonicalize a)"
| "cls_match Word c = is_word c"
| "cls_match Space c = is_space c"
| "cls_match Digit c = is_digit c"
| "cls_match (NotCh a) c = (c \<noteq> a)"
| "cls_match WordBrackets c = (is_word c \<or> c = CHR ''['' \<or> c = CHR '']'')"

text \<open>
  A regular expression is a sequence of items. Quantifiers are greedy and apply to
  one character class, as everywhere in the source; \<open>Open n\<close> and \<open>Close n\<close>
  delimit the capture group \<open>n\<close>; \<open>Opt\<close> is an optional non-capturing group
  \<open>(?:...)?\<close>; \<open>AltI\<close> is an alternation of literal words under the \<open>i\<close> flag;
  \<open>Eol\<close> is \<open>$\<close> without the \<open>m\<close> flag.
\<close>

datatype rx =
    Atom cls
  | Star cls
  | Plus cls
  | Open nat
  | Close nat
  | AltI "string list"
  | Eol
  | Opt "rx list"

text \<open>A literal word of the pattern, under the \<open>i\<close> flag and without it.\<close>

definition litI :: "string \<Rightarrow> rx list" where
  "litI w = map (\<lambda>c. Atom (ChI c)) w"

definition lit :: "string \<Rightarrow> rx list" where
  "lit w = map (\<lambda>c. Atom (Ch c)) w"

text \<open>
  The state of a match: for each open group the input that remained when it was
  opened, and the captured text of each closed group.
\<close>

record mstate =
  opened :: "(nat \<times> string) list"
  caps :: "(nat \<times> string) list"

definition mstate0 :: mstate where
  "mstate0 = \<lparr>opened = [], caps = []\<rparr>"

definition close_group :: "nat \<Rightarrow> string \<Rightarrow> mstate \<Rightarrow> mstate" where
  "close_group n s st =
     (case map_of (opened st) n of
        None \<Rightarrow> st
      | Some s0 \<Rightarrow> st\<lparr>caps := (n, take (length s0 - length s) s0) # caps st\<rparr>)"

fun rx_weight :: "rx \<Rightarrow> nat" where
  "rx_weight (Opt b) = Suc (sum_list (map rx_weight b))"
| "rx_weight (AltI ws) = Suc (sum_list (map (\<lambda>w. Suc (length w)) ws))"
| "rx_weight (Plus c) = 2"
| "rx_weight _ = 1"

text \<open>
  The backtracking matcher of ECMAScript, restricted to these items: \<open>rx_match r s st\<close>
  matches the sequence \<open>r\<close> at the start of \<open>s\<close> and returns the input that remains
  and the captures of the first successful alternative, a greedy quantifier trying
  the longest run first and giving characters back one at a time.
\<close>

function rx_match :: "rx list \<Rightarrow> string \<Rightarrow> mstate \<Rightarrow> (string \<times> mstate) option" where
  "rx_match [] s st = Some (s, st)"
| "rx_match (Atom c # r) s st =
     (case s of [] \<Rightarrow> None | x # xs \<Rightarrow> if cls_match c x then rx_match r xs st else None)"
| "rx_match (Star c # r) s st =
     (case s of
        [] \<Rightarrow> rx_match r [] st
      | x # xs \<Rightarrow>
          if cls_match c x
          then (case rx_match (Star c # r) xs st of
                  Some res \<Rightarrow> Some res
                | None \<Rightarrow> rx_match r s st)
          else rx_match r s st)"
| "rx_match (Plus c # r) s st =
     (case s of [] \<Rightarrow> None | x # xs \<Rightarrow> if cls_match c x then rx_match (Star c # r) xs st else None)"
| "rx_match (Open n # r) s st = rx_match r s (st\<lparr>opened := (n, s) # opened st\<rparr>)"
| "rx_match (Close n # r) s st = rx_match r s (close_group n s st)"
| "rx_match (AltI [] # r) s st = None"
| "rx_match (AltI (w # ws) # r) s st =
     (case rx_match (litI w @ r) s st of
        Some res \<Rightarrow> Some res
      | None \<Rightarrow> rx_match (AltI ws # r) s st)"
| "rx_match (Eol # r) s st = (if s = [] then rx_match r s st else None)"
| "rx_match (Opt b # r) s st =
     (case rx_match (b @ r) s st of
        Some res \<Rightarrow> Some res
      | None \<Rightarrow> rx_match r s st)"
  by pat_completeness auto
termination
  by (relation "measures [\<lambda>(r, s, st). sum_list (map rx_weight r), \<lambda>(r, s, st). length s]")
     (auto simp: litI_def comp_def sum_list_triv)

text \<open>The text of capture group \<open>n\<close>; \<open>None\<close> is JavaScript's \<open>undefined\<close>.\<close>

definition group :: "mstate \<Rightarrow> nat \<Rightarrow> string option" where
  "group st n = map_of (caps st) n"

text \<open>
  \<open>RegExp.prototype.exec\<close> without the \<open>g\<close> flag, as \<open>String.prototype.match\<close> calls
  it: the match at the leftmost position that has one. The result holds the text
  before the match, the matched text, the text after it and the captures.
\<close>

record rmatch =
  leading :: string
  matched :: string
  trailing :: string
  groups :: mstate

fun rx_exec :: "rx list \<Rightarrow> string \<Rightarrow> rmatch option" where
  "rx_exec r [] =
     (case rx_match r [] mstate0 of
        None \<Rightarrow> None
      | Some (rest, st) \<Rightarrow> Some \<lparr>leading = [], matched = [], trailing = [], groups = st\<rparr>)"
| "rx_exec r (c # cs) =
     (case rx_match r (c # cs) mstate0 of
        Some (rest, st) \<Rightarrow>
          Some \<lparr>leading = [], matched = take (length (c # cs) - length rest) (c # cs),
                trailing = rest, groups = st\<rparr>
      | None \<Rightarrow>
          (case rx_exec r cs of
             None \<Rightarrow> None
           | Some m \<Rightarrow> Some (m\<lparr>leading := c # leading m\<rparr>)))"

text \<open>
  A replacement text: literal pieces and references \<open>$n\<close> to capture groups (a
  group that did not take part is replaced by the empty string).
\<close>

datatype piece = Txt string | Ref nat

fun expand :: "piece list \<Rightarrow> mstate \<Rightarrow> string" where
  "expand [] st = []"
| "expand (Txt t # ps) st = t @ expand ps st"
| "expand (Ref n # ps) st = (case group st n of None \<Rightarrow> [] | Some c \<Rightarrow> c) @ expand ps st"

text \<open>
  \<open>String.prototype.replace\<close> with a regular expression that has the \<open>g\<close> flag:
  every match, from left to right, each search starting where the previous match
  ended (one character further after an empty match).
\<close>

function replace_g :: "rx list \<Rightarrow> piece list \<Rightarrow> string \<Rightarrow> string" where
  "replace_g r t [] =
     (case rx_match r [] mstate0 of None \<Rightarrow> [] | Some (rest, st) \<Rightarrow> expand t st)"
| "replace_g r t (c # cs) =
     (case rx_match r (c # cs) mstate0 of
        None \<Rightarrow> c # replace_g r t cs
      | Some (rest, st) \<Rightarrow>
          if length rest < length (c # cs)
          then expand t st @ replace_g r t rest
          else expand t st @ c # replace_g r t cs)"
  by pat_completeness auto
termination
  by (relation "measure (\<lambda>(r, t, s). length s)") auto

text \<open>\<open>String.prototype.replace\<close> with a regular expression without the \<open>g\<close> flag.\<close>

definition replace_first :: "rx list \<Rightarrow> piece list \<Rightarrow> string \<Rightarrow> string" where
  "replace_first r t s =
     (case rx_exec r s of
        None \<Rightarrow> s
      | Some m \<Rightarrow> leading m @ expand t (groups m) @ trailing m)"

text \<open>
  \<open>String.prototype.match\<close> with the \<open>g\<close> flag: the matched texts, from left to
  right; \<open>None\<close> is \<open>null\<close>, returned when there is no match.
\<close>

function matches_g :: "rx list \<Rightarrow> string \<Rightarrow> string list" where
  "matches_g r [] =
     (case rx_match r [] mstate0 of None \<Rightarrow> [] | Some (rest, st) \<Rightarrow> [[]])"
| "matches_g r (c # cs) =
     (case rx_match r (c # cs) mstate0 of
        None \<Rightarrow> matches_g r cs
      | Some (rest, st) \<Rightarrow>
          if length rest < length (c # cs)
          then take (length (c # cs) - length rest) (c # cs) # matches_g r rest
          else [] # matches_g r cs)"
  by pat_completeness auto
termination
  by (relation "measure (\<lambda>(r, s). length s)") auto

definition match_g :: "rx list \<Rightarrow> string \<Rightarrow> string list option" where
  "match_g r s = (case matches_g r s of [] \<Rightarrow> None | ms \<Rightarrow> Some ms)"

section \<open>The syntax normalizer: \<open>convertPostgreSQLFunctions\<close>\<close>

text \<open>\<open>/EXTRACT\s*\(\s*(\w+)\s+FROM\s+([^)]+)\)/gi\<close>\<close>

definition re_extract :: "rx list" where
  "re_extract =
     litI ''EXTRACT'' @ [Star Space, Atom (Ch CHR ''(''), Star Space,
       Open 1, Plus Word, Close 1, Plus Space] @
     litI ''FROM'' @ [Plus Space, Open 2, Plus (NotCh CHR '')''), Close 2,
       Atom (Ch CHR '')'')]"

text \<open>The replacement \<open>"DATE_PART('$1', $2)"\<close>.\<close>

definition date_part_template :: "piece list" where
  "date_part_template =
     [Txt ''DATE_PART('', Txt [CHR 0x27], Ref 1, Txt [CHR 0x27], Txt '', '', Ref 2, Txt '')'']"

text \<open>\<open>/(\w+)::[\w\[\]]+/gi\<close>, replaced by \<open>'$1'\<close>.\<close>

definition re_cast :: "rx list" where
  "re_cast =
     [Open 1, Plus Word, Close 1, Atom (Ch CHR '':''), Atom (Ch CHR '':''), Plus WordBrackets]"

definition convertPostgreSQLFunctions :: "string \<Rightarrow> string" where
  "convertPostgreSQLFunctions query =
     (let convertedQuery = replace_g re_extract date_part_template query;
          convertedQuery = replace_g re_cast [Ref 1] convertedQuery
      in convertedQuery)"

section \<open>Values and objects\<close>

text \<open>
  The values a fetched row can hold and the values the aggregators store: numbers
  are the integers and \<open>NaN\<close> (floating point is not modelled), and a \<open>Set\<close> is the
  list of its members in insertion order. An object is the list of its own
  properties in insertion order. The prototype of an object is not modelled: a
  column or an alias named like a property of \<open>Object.prototype\<close> (\<open>constructor\<close>,
  \<open>hasOwnProperty\<close>, \<open>__proto__\<close> and the like) is a name like any other here.
\<close>

datatype jsval =
    JUndefined
  | JNull
  | JBool bool
  | JNum int
  | JNaN
  | JStr string
  | JSet "jsval list"

type_synonym obj = "(string \<times> jsval) list"

fun truthy :: "jsval \<Rightarrow> bool" where
  "truthy JUndefined = False"
| "truthy JNull = False"
| "truthy (JBool b) = b"
| "truthy (JNum n) = (n \<noteq> 0)"
| "truthy JNaN = False"
| "truthy (JStr s) = (s \<noteq> [])"
| "truthy (JSet xs) = True"

text \<open>
  \<open>o[k]\<close>, \<open>o[k] = v\<close>, \<open>o.hasOwnProperty(k)\<close> and \<open>delete o[k]\<close>. A \<open>Map\<close> with
  string keys is such a list too, \<open>put\<close> being its \<open>set\<close>, \<open>map_of\<close> its \<open>get\<close> and
  \<open>has\<close> its \<open>has\<close>.
\<close>

definition get :: "obj \<Rightarrow> string \<Rightarrow> jsval" where
  "get ob k = (case map_of ob k of None \<Rightarrow> JUndefined | Some v \<Rightarrow> v)"

fun put :: "(string \<times> 'a) list \<Rightarrow> string \<Rightarrow> 'a \<Rightarrow> (string \<times> 'a) list" where
  "put [] k v = [(k, v)]"
| "put ((k', v') # ob) k v = (if k' = k then (k, v) # ob else (k', v') # put ob k v)"

definition has :: "(string \<times> 'a) list \<Rightarrow> string \<Rightarrow> bool" where
  "has ob k = (k \<in> set (map fst ob))"

definition hasOwnProperty :: "obj \<Rightarrow> string \<Rightarrow> bool" where
  "hasOwnProperty ob k = has ob k"

definition delete_prop :: "obj \<Rightarrow> string \<Rightarrow> obj" where
  "delete_prop ob k = filter (\<lambda>kv. fst kv \<noteq> k) ob"

text \<open>The decimal text of an integer, as \<open>Number.prototype.toString\<close> writes it.\<close>

definition digit_char :: "nat \<Rightarrow> char" where
  "digit_char d = char_of (48 + d)"

function dec :: "nat \<Rightarrow> string" where
  "dec n = (if n < 10 then [digit_char n] else dec (n div 10) @ [digit_char (n mod 10)])"
  by pat_completeness auto
termination
  by (relation "measure id") auto

declare dec.simps [simp del]

definition int_to_string :: "int \<Rightarrow> string" where
  "int_to_string i = (if i < 0 then CHR ''-'' # dec (nat (- i)) else dec (nat i))"

text \<open>
  \<open>ToString\<close> of the elements of \<open>Array.prototype.join\<close>, which writes \<open>null\<close> and
  \<open>undefined\<close> as the empty string.
\<close>

fun join_text :: "jsval \<Rightarrow> string" where
  "join_text JUndefined = []"
| "join_text JNull = []"
| "join_text (JBool b) = (if b then ''true'' else ''false'')"
| "join_text (JNum n) = int_to_string n"
| "join_text JNaN = ''NaN''"
| "join_text (JStr s) = s"
| "join_text (JSet xs) = ''[object Set]''"

fun join :: "jsval list \<Rightarrow> string \<Rightarrow> string" where
  "join [] sep = []"
| "join [v] sep = join_text v"
| "join (v # w # vs) sep = join_text v @ sep @ join (w # vs) sep"

section \<open>Dates\<close>

text \<open>
  A \<open>Date\<close> is its time value: the milliseconds since 1970-01-01T00:00:00Z, or
  \<open>None\<close> for \<open>NaN\<close> (an invalid date). The definitions follow the abstract operations
  of ECMAScript. The host is a parameter: its time zone, a fixed offset from UTC in
  minutes (\<open>60\<close> is UTC+01:00; daylight saving transitions are not modelled), and
  what its \<open>Date.parse\<close> makes of a string that is not in one of the forms of the
  ECMAScript date-time format modelled below.
\<close>

record host =
  tz_minutes :: int
  parse_other :: "string \<Rightarrow> int option"

definition msPerDay :: int where
  "msPerDay = 86400000"

definition Day :: "int \<Rightarrow> int" where
  "Day t = t div msPerDay"

definition TimeWithinDay :: "int \<Rightarrow> int" where
  "TimeWithinDay t = t mod msPerDay"

definition WeekDay :: "int \<Rightarrow> int" where
  "WeekDay t = (Day t + 4) mod 7"

text \<open>
  The day number of a date of the proleptic Gregorian calendar (month from 1), and
  the year, month (from 1) and day of a day number.
\<close>

definition days_from_civil :: "int \<Rightarrow> int \<Rightarrow> int \<Rightarrow> int" where
  "days_from_civil y m d =
     (let y' = (if m \<le> 2 then y - 1 else y);
          era = y' div 400;
          yoe = y' - era * 400;
          doy = (153 * (if m > 2 then m - 3 else m + 9) + 2) div 5 + d - 1;
          doe = yoe * 365 + yoe div 4 - yoe div 100 + doy
      in era * 146097 + doe - 719468)"

definition civil_from_days :: "int \<Rightarrow> int \<times> int \<times> int" where
  "civil_from_days z0 =
     (let z = z0 + 719468;
          era = z div 146097;
          doe = z - era * 146097;
          yoe = (doe - doe div 1460 + doe div 36524 - doe div 146096) div 365;
          doy = doe - (365 * yoe + yoe div 4 - yoe div 100);
          mp = (5 * doy + 2) div 153;
          d = doy - (153 * mp + 2) div 5 + 1;
          m = (if mp < 10 then mp + 3 else mp - 9);
          y = yoe + era * 400 + (if m \<le> 2 then 1 else 0)
      in (y, m, d))"

definition YearFromTime :: "int \<Rightarrow> int" where
  "YearFromTime t = fst (civil_from_days (Day t))"

definition MonthFromTime :: "int \<Rightarrow> int" where
  "MonthFromTime t = fst (snd (civil_from_days (Day t))) - 1"

definition DateFromTime :: "int \<Rightarrow> int" where
  "DateFromTime t = snd (snd (civil_from_days (Day t)))"

definition HourFromTime :: "int \<Rightarrow> int" where
  "HourFromTime t = (t div 3600000) mod 24"

definition MinFromTime :: "int \<Rightarrow> int" where
  "MinFromTime t = (t div 60000) mod 60"

definition SecFromTime :: "int \<Rightarrow> int" where
  "SecFromTime t = (t div 1000) mod 60"

definition msFromTime :: "int \<Rightarrow> int" where
  "msFromTime t = t mod 1000"

definition MakeTime :: "int \<Rightarrow> int \<Rightarrow> int \<Rightarrow> int \<Rightarrow> int" where
  "MakeTime h m s ms = h * 3600000 + m * 60000 + s * 1000 + ms"

definition MakeDay :: "int \<Rightarrow> int \<Rightarrow> int \<Rightarrow> int" where
  "MakeDay year month date =
     (let ym = year + month div 12; mn = month mod 12
      in days_from_civil ym (mn + 1) 1 + date - 1)"

definition MakeDate :: "int \<Rightarrow> int \<Rightarrow> int" where
  "MakeDate day time = day * msPerDay + time"

definition TimeClip :: "int \<Rightarrow> int option" where
  "TimeClip t = (if \<bar>t\<bar> > 8640000000000000 then None else Some t)"

definition LocalTime :: "host \<Rightarrow> int \<Rightarrow> int" where
  "LocalTime h t = t + tz_minutes h * 60000"

definition UTC :: "host \<Rightarrow> int \<Rightarrow> int" where
  "UTC h t = t - tz_minutes h * 60000"

text \<open>A number is an integer or \<open>NaN\<close> (\<open>None\<close>); arithmetic propagates \<open>NaN\<close>.\<close>

type_synonym num = "int option"

definition nadd :: "num \<Rightarrow> num \<Rightarrow> num" where
  "nadd a b = (case (a, b) of (Some x, Some y) \<Rightarrow> Some (x + y) | _ \<Rightarrow> None)"

definition nsub :: "num \<Rightarrow> num \<Rightarrow> num" where
  "nsub a b = (case (a, b) of (Some x, Some y) \<Rightarrow> Some (x - y) | _ \<Rightarrow> None)"

text \<open>The \<open>%\<close> of JavaScript: the remainder has the sign of the dividend.\<close>

definition nrem :: "num \<Rightarrow> int \<Rightarrow> num" where
  "nrem a k =
     (case a of
        None \<Rightarrow> None
      | Some x \<Rightarrow> if k = 0 then None else Some (sgn x * (\<bar>x\<bar> mod \<bar>k\<bar>)))"

definition of_num :: "num \<Rightarrow> jsval" where
  "of_num a = (case a of None \<Rightarrow> JNaN | Some x \<Rightarrow> JNum x)"

subsection \<open>\<open>Date.parse\<close> and the constructors\<close>

definition num_of_digits :: "string \<Rightarrow> int option" where
  "num_of_digits s =
     (if s \<noteq> [] \<and> list_all is_digit s
      then Some (foldl (\<lambda>a c. 10 * a + (int (code_unit c) - 48)) 0 s)
      else None)"

definition DaysInMonth :: "int \<Rightarrow> int \<Rightarrow> int" where
  "DaysInMonth y m =
     (if m = 12 then days_from_civil (y + 1) 1 1 else days_from_civil y (m + 1) 1)
     - days_from_civil y m 1"

text \<open>\<open>YYYY-MM-DD\<close>: the day number, when the month and the day exist.\<close>

definition parse_ymd :: "string \<Rightarrow> int option" where
  "parse_ymd s =
     (if length s = 10 \<and> s ! 4 = CHR ''-'' \<and> s ! 7 = CHR ''-''
      then (case (num_of_digits (take 4 s), num_of_digits (take 2 (drop 5 s)),
                  num_of_digits (drop 8 s)) of
              (Some y, Some m, Some d) \<Rightarrow>
                if 1 \<le> m \<and> m \<le> 12 \<and> 1 \<le> d \<and> d \<le> DaysInMonth y m
                then Some (MakeDay y (m - 1) d) else None
            | _ \<Rightarrow> None)
      else None)"

text \<open>\<open>HH:mm:ss\<close>: the milliseconds within the day.\<close>

definition parse_hms :: "string \<Rightarrow> int option" where
  "parse_hms s =
     (if length s = 8 \<and> s ! 2 = CHR '':'' \<and> s ! 5 = CHR '':''
      then (case (num_of_digits (take 2 s), num_of_digits (take 2 (drop 3 s)),
                  num_of_digits (drop 6 s)) of
              (Some hh, Some mm, Some ss) \<Rightarrow>
                if (hh \<le> 23 \<and> mm \<le> 59 \<and> ss \<le> 59) \<or> (hh = 24 \<and> mm = 0 \<and> ss = 0)
                then Some (MakeTime hh mm ss 0) else None
            | _ \<Rightarrow> None)
      else None)"

text \<open>
  \<open>Date.parse\<close>. Three forms of the date-time format are modelled: \<open>YYYY-MM-DD\<close>,
  which is a UTC time, \<open>YYYY-MM-DDTHH:mm:ss\<close>, which is a local time, and
  \<open>YYYY-MM-DDTHH:mm:ssZ\<close>. Every other string is left to the host.
\<close>

definition Date_parse :: "host \<Rightarrow> string \<Rightarrow> num" where
  "Date_parse h s =
     (if length s = 10
      then (case parse_ymd s of
              Some day \<Rightarrow> TimeClip (MakeDate day 0)
            | None \<Rightarrow> parse_other h s)
      else if (length s = 19 \<or> (length s = 20 \<and> s ! 19 = CHR ''Z'')) \<and> s ! 10 = CHR ''T''
      then (case (parse_ymd (take 10 s), parse_hms (take 8 (drop 11 s))) of
              (Some day, Some tm) \<Rightarrow>
                TimeClip (if length s = 20 then MakeDate day tm else UTC h (MakeDate day tm))
            | _ \<Rightarrow> parse_other h s)
      else parse_other h s)"

text \<open>\<open>new Date(value)\<close>: a string is parsed, any other value is converted to a number.\<close>

fun new_Date :: "host \<Rightarrow> jsval \<Rightarrow> num" where
  "new_Date h (JStr s) = Date_parse h s"
| "new_Date h (JSet xs) = Date_parse h ''[object Set]''"
| "new_Date h JUndefined = None"
| "new_Date h JNull = TimeClip 0"
| "new_Date h (JBool b) = TimeClip (if b then 1 else 0)"
| "new_Date h (JNum n) = TimeClip n"
| "new_Date h JNaN = None"

text \<open>
  \<open>new Date(year, month, date, hours)\<close>, a local time; a year from 0 to 99 stands
  for 1900 to 1999.
\<close>

definition new_Date_fields :: "host \<Rightarrow> num \<Rightarrow> num \<Rightarrow> num \<Rightarrow> num \<Rightarrow> num" where
  "new_Date_fields h year month date hours =
     (case (year, month, date, hours) of
        (Some y, Some m, Some d, Some hh) \<Rightarrow>
          (let yr = (if 0 \<le> y \<and> y \<le> 99 then 1900 + y else y)
           in TimeClip (UTC h (MakeDate (MakeDay yr m d) (MakeTime hh 0 0 0))))
      | _ \<Rightarrow> None)"

subsection \<open>The methods of \<open>Date.prototype\<close> that the source calls\<close>

definition getFullYear :: "host \<Rightarrow> num \<Rightarrow> num" where
  "getFullYear h date = map_option (\<lambda>t. YearFromTime (LocalTime h t)) date"

definition getMonth :: "host \<Rightarrow> num \<Rightarrow> num" where
  "getMonth h date = map_option (\<lambda>t. MonthFromTime (LocalTime h t)) date"

definition getDate :: "host \<Rightarrow> num \<Rightarrow> num" where
  "getDate h date = map_option (\<lambda>t. DateFromTime (LocalTime h t)) date"

definition getDay :: "host \<Rightarrow> num \<Rightarrow> num" where
  "getDay h date = map_option (\<lambda>t. WeekDay (LocalTime h t)) date"

definition getHours :: "host \<Rightarrow> num \<Rightarrow> num" where
  "getHours h date = map_option (\<lambda>t. HourFromTime (LocalTime h t)) date"

definition getMinutes :: "host \<Rightarrow> num \<Rightarrow> num" where
  "getMinutes h date = map_option (\<lambda>t. MinFromTime (LocalTime h t)) date"

text \<open>\<open>setDate(dt)\<close> and \<open>setHours(0, 0, 0, 0)\<close>: the new time value.\<close>

definition setDate :: "host \<Rightarrow> num \<Rightarrow> num \<Rightarrow> num" where
  "setDate h date dt =
     (case (date, dt) of
        (Some u, Some d) \<Rightarrow>
          (let t = LocalTime h u;
               newDate = MakeDate (MakeDay (YearFromTime t) (MonthFromTime t) d) (TimeWithinDay t)
           in TimeClip (UTC h newDate))
      | _ \<Rightarrow> None)"

definition setHours_0 :: "host \<Rightarrow> num \<Rightarrow> num" where
  "setHours_0 h date =
     (case date of
        Some u \<Rightarrow>
          (let t = LocalTime h u;
               newDate = MakeDate (Day t) (MakeTime 0 0 0 0)
           in TimeClip (UTC h newDate))
      | None \<Rightarrow> None)"

text \<open>The exceptions that the aggregators can raise.\<close>

datatype js_error =
    RangeError_Invalid_time_value  \<comment> \<open>\<open>toISOString\<close> of an invalid date\<close>
  | TypeError                      \<comment> \<open>a property or a method of \<open>undefined\<close> or \<open>null\<close>\<close>

definition pad :: "nat \<Rightarrow> int \<Rightarrow> string" where
  "pad k n = (let d = dec (nat n) in replicate (k - length d) CHR ''0'' @ d)"

text \<open>\<open>toISOString\<close>: the UTC time as \<open>YYYY-MM-DDTHH:mm:ss.sssZ\<close>.\<close>

definition toISOString :: "num \<Rightarrow> js_error + string" where
  "toISOString date =
     (case date of
        None \<Rightarrow> Inl RangeError_Invalid_time_value
      | Some t \<Rightarrow>
          (let y = YearFromTime t;
               year = (if 0 \<le> y \<and> y \<le> 9999 then pad 4 y
                       else (if y < 0 then CHR ''-'' else CHR ''+'') # pad 6 \<bar>y\<bar>)
           in Inr (year @ ''-'' @ pad 2 (MonthFromTime t + 1) @ ''-'' @ pad 2 (DateFromTime t)
                   @ ''T'' @ pad 2 (HourFromTime t) @ '':'' @ pad 2 (MinFromTime t)
                   @ '':'' @ pad 2 (SecFromTime t) @ ''.'' @ pad 3 (msFromTime t) @ ''Z'')))"

text \<open>\<open>s.split('T')[0]\<close>\<close>

definition split_T_0 :: "string \<Rightarrow> string" where
  "split_T_0 s = takeWhile (\<lambda>c. c \<noteq> CHR ''T'') s"

section \<open>Conversions and operators\<close>

text \<open>\<open>String.prototype.trim\<close>\<close>

definition trim :: "string \<Rightarrow> string" where
  "trim s = rev (dropWhile is_space (rev (dropWhile is_space s)))"

text \<open>
  \<open>String.prototype.toUpperCase\<close> on the code units below 256. The upper-case forms
  of the code units 181, 223 and 255 are not Latin-1 characters; these three are
  left as they are.
\<close>

definition upper_char :: "char \<Rightarrow> char" where
  "upper_char c =
     (let n = code_unit c in
      if (97 \<le> n \<and> n \<le> 122) \<or> (224 \<le> n \<and> n \<le> 246) \<or> (248 \<le> n \<and> n \<le> 254)
      then char_of (n - 32) else c)"

definition toUpperCase :: "string \<Rightarrow> string" where
  "toUpperCase s = map upper_char s"

text \<open>
  \<open>ToNumber\<close>. Of a string: the integer that its trimmed text writes in decimal
  digits with an optional sign, zero for the empty text, otherwise \<open>NaN\<close> (a text
  with a fraction, an exponent, a radix prefix or \<open>Infinity\<close> is not a number of this
  model).
\<close>

definition string_to_number :: "string \<Rightarrow> num" where
  "string_to_number s =
     (let t = trim s in
      if t = [] then Some 0
      else if hd t = CHR ''-'' then map_option uminus (num_of_digits (tl t))
      else if hd t = CHR ''+'' then num_of_digits (tl t)
      else num_of_digits t)"

fun to_number :: "jsval \<Rightarrow> num" where
  "to_number JUndefined = None"
| "to_number JNull = Some 0"
| "to_number (JBool b) = Some (if b then 1 else 0)"
| "to_number (JNum n) = Some n"
| "to_number JNaN = None"
| "to_number (JStr s) = string_to_number s"
| "to_number (JSet xs) = None"

text \<open>\<open>a || b\<close>, \<open>x++\<close> (the new value), \<open>xs[i]\<close> and \<open>a < b\<close>.\<close>

definition or_else :: "jsval \<Rightarrow> jsval \<Rightarrow> jsval" where
  "or_else a b = (if truthy a then a else b)"

definition increment :: "jsval \<Rightarrow> jsval" where
  "increment v = of_num (nadd (to_number v) (Some 1))"

definition array_at :: "jsval list \<Rightarrow> nat \<Rightarrow> jsval" where
  "array_at xs i = (if i < length xs then xs ! i else JUndefined)"

fun str_lt :: "string \<Rightarrow> string \<Rightarrow> bool" where
  "str_lt [] [] = False"
| "str_lt [] (y # ys) = True"
| "str_lt (x # xs) [] = False"
| "str_lt (x # xs) (y # ys) = (code_unit x < code_unit y \<or> (x = y \<and> str_lt xs ys))"

text \<open>\<open>ToPrimitive\<close>: a \<open>Set\<close> becomes the string \<open>[object Set]\<close>.\<close>

fun to_primitive :: "jsval \<Rightarrow> jsval" where
  "to_primitive (JSet xs) = JStr ''[object Set]''"
| "to_primitive v = v"

definition js_lt :: "jsval \<Rightarrow> jsval \<Rightarrow> bool" where
  "js_lt a b =
     (case (to_primitive a, to_primitive b) of
        (JStr x, JStr y) \<Rightarrow> str_lt x y
      | (px, py) \<Rightarrow>
          (case (to_number px, to_number py) of (Some x, Some y) \<Rightarrow> x < y | _ \<Rightarrow> False))"

text \<open>
  \<open>Array.prototype.sort\<close> with a comparator: a stable sort, \<open>x\<close> placed after \<open>y\<close> only
  when the comparator is positive on \<open>(x, y)\<close>; a comparator value \<open>NaN\<close> counts as
  zero. (For a comparator that is not a consistent order the result is left to the
  implementation by ECMAScript; this is the result of an insertion sort.)
\<close>

fun insert_by :: "('a \<Rightarrow> 'a \<Rightarrow> num) \<Rightarrow> 'a \<Rightarrow> 'a list \<Rightarrow> 'a list" where
  "insert_by cmp x [] = [x]"
| "insert_by cmp x (y # ys) =
     (case cmp x y of
        None \<Rightarrow> x # y # ys
      | Some v \<Rightarrow> if 0 < v then y # insert_by cmp x ys else x # y # ys)"

definition sort_by :: "('a \<Rightarrow> 'a \<Rightarrow> num) \<Rightarrow> 'a list \<Rightarrow> 'a list" where
  "sort_by cmp xs = foldr (insert_by cmp) xs []"

section \<open>Path B: \<open>processGroupByDatePart\<close>\<close>

text \<open>\<open>/DATE_PART\s*\(\s*'(\w+)'\s*,\s*(\w+)\s*\)/gi\<close>\<close>

definition re_date_part :: "rx list" where
  "re_date_part =
     litI ''DATE_PART'' @ [Star Space, Atom (Ch CHR ''(''), Star Space,
       Atom (Ch CHR 0x27), Open 1, Plus Word, Close 1, Atom (Ch CHR 0x27),
       Star Space, Atom (Ch CHR '',''), Star Space, Open 2, Plus Word, Close 2,
       Star Space, Atom (Ch CHR '')'')]"

text \<open>The \<open>switch (part.toLowerCase())\<close>.\<close>

definition date_part_value :: "host \<Rightarrow> string \<Rightarrow> num \<Rightarrow> num" where
  "date_part_value h part date =
     (let p = toLowerCase part in
      if p = ''hour'' then getHours h date
      else if p = ''dow'' then getDay h date
      else if p = ''day'' then getDate h date
      else if p = ''month'' then nadd (getMonth h date) (Some 1)
      else if p = ''year'' then getFullYear h date
      else if p = ''minute'' then getMinutes h date
      else Some 0)"

text \<open>The property name that a value, possibly \<open>undefined\<close>, is used as.\<close>

definition prop_name :: "string option \<Rightarrow> string" where
  "prop_name c = (case c of None \<Rightarrow> ''undefined'' | Some k \<Rightarrow> k)"

text \<open>
  The body of the inner loop, for one matched text: the pattern is matched again,
  without the \<open>g\<close> flag, for \<open>part\<close> and \<open>column\<close> (both \<open>undefined\<close> if it did not
  match), and the key is the date part of the row's value, or \<open>null\<close>.
\<close>

definition date_part_key :: "host \<Rightarrow> obj \<Rightarrow> string \<Rightarrow> js_error + jsval" where
  "date_part_key h row m =
     (let (part, column) =
            (case rx_exec re_date_part m of
               None \<Rightarrow> (None, None)
             | Some r \<Rightarrow> (group (groups r) 1, group (groups r) 2))
      in if truthy (get row (prop_name column))
         then (let date = new_Date h (get row (prop_name column))
               in case part of
                    None \<Rightarrow> Inl TypeError
                  | Some p \<Rightarrow> Inr (of_num (date_part_value h p date)))
         else Inr JNull)"

fun date_part_keys :: "host \<Rightarrow> obj \<Rightarrow> string list \<Rightarrow> js_error + jsval list" where
  "date_part_keys h row [] = Inr []"
| "date_part_keys h row (m # ms) =
     (case date_part_key h row m of
        Inl e \<Rightarrow> Inl e
      | Inr k \<Rightarrow>
          (case date_part_keys h row ms of
             Inl e \<Rightarrow> Inl e
           | Inr ks \<Rightarrow> Inr (k # ks)))"

text \<open>The result row of a new bucket.\<close>

definition new_date_part_row :: "string \<Rightarrow> jsval list \<Rightarrow> obj" where
  "new_date_part_row originalQuery keys =
     (let resultRow = [];
          resultRow = (if str_includes originalQuery ''signup_hour''
                       then put resultRow ''signup_hour'' (array_at keys 0) else resultRow);
          resultRow = (if str_includes originalQuery ''signup_day_of_week''
                       then put resultRow ''signup_day_of_week''
                              (or_else (array_at keys 1) (array_at keys 0))
                       else resultRow)
      in put resultRow ''user_count'' (JNum 0))"

text \<open>The body of the loop over the rows, and the loop.\<close>

definition date_part_step ::
  "host \<Rightarrow> string \<Rightarrow> string list \<Rightarrow> (string \<times> obj) list \<Rightarrow> obj \<Rightarrow> js_error + (string \<times> obj) list"
where
  "date_part_step h originalQuery datePartMatches results row =
     (case date_part_keys h row datePartMatches of
        Inl e \<Rightarrow> Inl e
      | Inr keys \<Rightarrow>
          (let keyStr = join keys ''|'';
               results = (if \<not> has results keyStr
                          then put results keyStr (new_date_part_row originalQuery keys)
                          else results)
           in case map_of results keyStr of
                None \<Rightarrow> Inl TypeError
              | Some resultRow \<Rightarrow>
                  Inr (put results keyStr
                         (put resultRow ''user_count'' (increment (get resultRow ''user_count''))))))"

fun date_part_loop ::
  "host \<Rightarrow> string \<Rightarrow> string list \<Rightarrow> (string \<times> obj) list \<Rightarrow> obj list \<Rightarrow> js_error + (string \<times> obj) list"
where
  "date_part_loop h q ms results [] = Inr results"
| "date_part_loop h q ms results (row # rows) =
     (case date_part_step h q ms results row of
        Inl e \<Rightarrow> Inl e
      | Inr results' \<Rightarrow> date_part_loop h q ms results' rows)"

text \<open>The comparator \<open>(a, b) => (b.user_count || 0) - (a.user_count || 0)\<close>.\<close>

definition by_user_count_desc :: "obj \<Rightarrow> obj \<Rightarrow> num" where
  "by_user_count_desc a b =
     nsub (to_number (or_else (get b ''user_count'') (JNum 0)))
          (to_number (or_else (get a ''user_count'') (JNum 0)))"

text \<open>The data is \<open>None\<close> when it is \<open>null\<close>.\<close>

definition processGroupByDatePart :: "host \<Rightarrow> obj list option \<Rightarrow> string \<Rightarrow> js_error + obj list" where
  "processGroupByDatePart h data originalQuery =
     (case match_g re_date_part originalQuery of
        None \<Rightarrow> Inr []
      | Some datePartMatches \<Rightarrow>
          (case data of
             None \<Rightarrow> Inr []
           | Some rows \<Rightarrow>
               if rows = [] then Inr []
               else (case date_part_loop h originalQuery datePartMatches [] rows of
                       Inl e \<Rightarrow> Inl e
                     | Inr results \<Rightarrow>
                         Inr (take 100 (sort_by by_user_count_desc (map snd results))))))"

section \<open>Path A: \<open>processDateTruncQuery\<close>\<close>

text \<open>\<open>/DATE_TRUNC\s*\(\s*'(\w+)'\s*,\s*([^:]+)(?:::[\w\[\]]+)?\s*\)/i\<close>\<close>

definition re_date_trunc :: "rx list" where
  "re_date_trunc =
     litI ''DATE_TRUNC'' @ [Star Space, Atom (Ch CHR ''(''), Star Space,
       Atom (Ch CHR 0x27), Open 1, Plus Word, Close 1, Atom (Ch CHR 0x27),
       Star Space, Atom (Ch CHR '',''), Star Space, Open 2, Plus (NotCh CHR '':''), Close 2,
       Opt [Atom (Ch CHR '':''), Atom (Ch CHR '':''), Plus WordBrackets],
       Star Space, Atom (Ch CHR '')'')]"

text \<open>\<open>/::[\w\[\]]+$/\<close>\<close>

definition re_cast_end :: "rx list" where
  "re_cast_end = [Atom (Ch CHR '':''), Atom (Ch CHR '':''), Plus WordBrackets, Eol]"

text \<open>\<open>/DATE_TRUNC[^)]*\)\s+AS\s+(\w+)/i\<close>\<close>

definition re_alias :: "rx list" where
  "re_alias =
     litI ''DATE_TRUNC'' @ [Star (NotCh CHR '')''), Atom (Ch CHR '')''), Plus Space] @
     litI ''AS'' @ [Plus Space, Open 1, Plus Word, Close 1]"

text \<open>\<open>/ORDER\s+BY\s+(\w+)(?:\s+(ASC|DESC))?/i\<close>\<close>

definition re_order_by :: "rx list" where
  "re_order_by =
     litI ''ORDER'' @ [Plus Space] @ litI ''BY'' @ [Plus Space, Open 1, Plus Word, Close 1,
       Opt [Plus Space, Open 2, AltI [''ASC'', ''DESC''], Close 2]]"

text \<open>\<open>/LIMIT\s+(\d+)/i\<close>\<close>

definition re_limit :: "rx list" where
  "re_limit = litI ''LIMIT'' @ [Plus Space, Open 1, Plus Digit, Close 1]"

text \<open>\<open>parseInt\<close> of the digits that \<open>(\d+)\<close> captured.\<close>

definition parseInt :: "string option \<Rightarrow> nat option" where
  "parseInt d = (case d of None \<Rightarrow> None | Some s \<Rightarrow> map_option nat (num_of_digits s))"

text \<open>
  The \<open>switch (precision.toLowerCase())\<close>: the bucket label of a date. Every branch
  ends in \<open>toISOString\<close>, which raises a \<open>RangeError\<close> on an invalid date.
\<close>

definition truncate_date :: "host \<Rightarrow> string \<Rightarrow> num \<Rightarrow> js_error + string" where
  "truncate_date h precision date =
     (let p = toLowerCase precision in
      if p = ''week'' then
        (let monday = date;
             monday = setDate h monday
                        (nsub (getDate h date) (nrem (nadd (getDay h date) (Some 6)) 7));
             monday = setHours_0 h monday
         in map_sum id split_T_0 (toISOString monday))
      else if p = ''day'' then
        map_sum id split_T_0
          (toISOString (new_Date_fields h (getFullYear h date) (getMonth h date)
                          (getDate h date) (Some 0)))
      else if p = ''month'' then
        map_sum id split_T_0
          (toISOString (new_Date_fields h (getFullYear h date) (getMonth h date)
                          (Some 1) (Some 0)))
      else if p = ''year'' then
        map_sum id split_T_0
          (toISOString (new_Date_fields h (getFullYear h date) (Some 0) (Some 1) (Some 0)))
      else if p = ''hour'' then
        (let hourTrunc = new_Date_fields h (getFullYear h date) (getMonth h date)
                           (getDate h date) (getHours h date)
         in toISOString hourTrunc)
      else map_sum id split_T_0 (toISOString date))"

text \<open>The field name of the bucket label: the alias, or \<open>week\<close>.\<close>

definition alias_of :: "string \<Rightarrow> string" where
  "alias_of originalQuery =
     (case rx_exec re_alias originalQuery of
        None \<Rightarrow> ''week''
      | Some aliasMatch \<Rightarrow> prop_name (group (groups aliasMatch) 1))"

text \<open>The result row of a new bucket.\<close>

definition new_date_trunc_row :: "string \<Rightarrow> string \<Rightarrow> obj" where
  "new_date_trunc_row originalQuery truncatedDate =
     (let resultRow = [];
          resultRow = put resultRow (alias_of originalQuery) (JStr truncatedDate);
          resultRow = (if str_includes originalQuery ''COUNT(user_id)''
                          \<or> str_includes originalQuery ''COUNT(*)''
                       then put resultRow ''user_count'' (JNum 0) else resultRow);
          resultRow = (if str_includes originalQuery ''COUNT(DISTINCT country)''
                       then put (put resultRow ''country_count'' (JNum 0)) ''_countries'' (JSet [])
                       else resultRow);
          resultRow = (if str_includes originalQuery ''COUNT(DISTINCT user_segment)''
                       then put (put resultRow ''segment_count'' (JNum 0)) ''_segments'' (JSet [])
                       else resultRow)
      in resultRow)"

text \<open>
  \<open>resultRow[setField].add(v); resultRow[countField] = resultRow[setField].size\<close>:
  a \<open>TypeError\<close> when the property is not a \<open>Set\<close>.
\<close>

definition add_distinct :: "obj \<Rightarrow> string \<Rightarrow> string \<Rightarrow> jsval \<Rightarrow> js_error + obj" where
  "add_distinct resultRow setField countField v =
     (case get resultRow setField of
        JSet xs \<Rightarrow>
          (let xs' = (if v \<in> set xs then xs else xs @ [v])
           in Inr (put (put resultRow setField (JSet xs')) countField (JNum (int (length xs')))))
      | _ \<Rightarrow> Inl TypeError)"

text \<open>The update of the aggregate counts of a bucket by a row.\<close>

definition update_counts :: "obj \<Rightarrow> obj \<Rightarrow> js_error + obj" where
  "update_counts resultRow row =
     (let resultRow = (if hasOwnProperty resultRow ''user_count''
                       then put resultRow ''user_count'' (increment (get resultRow ''user_count''))
                       else resultRow)
      in case (if hasOwnProperty resultRow ''country_count'' \<and> truthy (get row ''country'')
               then add_distinct resultRow ''_countries'' ''country_count'' (get row ''country'')
               else Inr resultRow) of
           Inl e \<Rightarrow> Inl e
         | Inr resultRow \<Rightarrow>
             if hasOwnProperty resultRow ''segment_count'' \<and> truthy (get row ''user_segment'')
             then add_distinct resultRow ''_segments'' ''segment_count'' (get row ''user_segment'')
             else Inr resultRow)"

text \<open>The body of the loop over the rows, and the loop.\<close>

definition date_trunc_step ::
  "host \<Rightarrow> string \<Rightarrow> string \<Rightarrow> string \<Rightarrow> (string \<times> obj) list \<Rightarrow> obj \<Rightarrow> js_error + (string \<times> obj) list"
where
  "date_trunc_step h originalQuery precision column results row =
     (if \<not> truthy (get row column) then Inr results
      else (let date = new_Date h (get row column)
            in case truncate_date h precision date of
                 Inl e \<Rightarrow> Inl e
               | Inr truncatedDate \<Rightarrow>
                   (let results = (if \<not> has results truncatedDate
                                   then put results truncatedDate
                                          (new_date_trunc_row originalQuery truncatedDate)
                                   else results)
                    in case map_of results truncatedDate of
                         None \<Rightarrow> Inl TypeError
                       | Some resultRow \<Rightarrow>
                           (case update_counts resultRow row of
                              Inl e \<Rightarrow> Inl e
                            | Inr resultRow' \<Rightarrow> Inr (put results truncatedDate resultRow')))))"

fun date_trunc_loop ::
  "host \<Rightarrow> string \<Rightarrow> string \<Rightarrow> string \<Rightarrow> (string \<times> obj) list \<Rightarrow> obj list \<Rightarrow> js_error + (string \<times> obj) list"
where
  "date_trunc_loop h q precision column results [] = Inr results"
| "date_trunc_loop h q precision column results (row # rows) =
     (case date_trunc_step h q precision column results row of
        Inl e \<Rightarrow> Inl e
      | Inr results' \<Rightarrow> date_trunc_loop h q precision column results' rows)"

text \<open>The removal of the temporary sets.\<close>

definition clean_row :: "obj \<Rightarrow> obj" where
  "clean_row row = delete_prop (delete_prop row ''_countries'') ''_segments''"

text \<open>The comparator of the \<open>ORDER BY\<close>.\<close>

definition by_order_column :: "string \<Rightarrow> bool \<Rightarrow> obj \<Rightarrow> obj \<Rightarrow> num" where
  "by_order_column orderColumn ascending a b =
     (let aVal = get a orderColumn; bVal = get b orderColumn
      in if js_lt aVal bVal then Some (if ascending then - 1 else 1)
         else if js_lt bVal aVal then Some (if ascending then 1 else - 1)
         else Some 0)"

definition apply_order_by :: "string \<Rightarrow> obj list \<Rightarrow> obj list" where
  "apply_order_by originalQuery processedData =
     (case rx_exec re_order_by originalQuery of
        None \<Rightarrow> processedData
      | Some orderMatch \<Rightarrow>
          (let orderColumn = prop_name (group (groups orderMatch) 1);
               direction = group (groups orderMatch) 2;
               ascending = (case direction of
                              None \<Rightarrow> True
                            | Some d \<Rightarrow> d = [] \<or> toUpperCase d = ''ASC'')
           in sort_by (by_order_column orderColumn ascending) processedData))"

definition apply_limit :: "string \<Rightarrow> obj list \<Rightarrow> obj list" where
  "apply_limit originalQuery processedData =
     (let limit = (case rx_exec re_limit originalQuery of
                     None \<Rightarrow> Some (length processedData)
                   | Some limitMatch \<Rightarrow> parseInt (group (groups limitMatch) 1))
      in case limit of
           None \<Rightarrow> []
         | Some n \<Rightarrow> take n processedData)"

definition processDateTruncQuery :: "host \<Rightarrow> obj list option \<Rightarrow> string \<Rightarrow> js_error + obj list" where
  "processDateTruncQuery h data originalQuery =
     (case data of
        None \<Rightarrow> Inr []
      | Some rows \<Rightarrow>
          if rows = [] then Inr []
          else (case rx_exec re_date_trunc originalQuery of
                  None \<Rightarrow> Inr []
                | Some dateTruncMatch \<Rightarrow>
                    (case (group (groups dateTruncMatch) 1, group (groups dateTruncMatch) 2) of
                       (Some precision, Some columnExpression) \<Rightarrow>
                         (let column = replace_first re_cast_end [] (trim columnExpression)
                          in case date_trunc_loop h originalQuery precision column [] rows of
                               Inl e \<Rightarrow> Inl e
                             | Inr results \<Rightarrow>
                                 (let processedData = map (\<lambda>kv. clean_row (snd kv)) results;
                                      processedData = apply_order_by originalQuery processedData;
                                      finalData = apply_limit originalQuery processedData
                                  in Inr finalData))
                     | _ \<Rightarrow> Inl TypeError)))"

section \<open>\<open>processGenericGroupBy\<close>\<close>

definition processGenericGroupBy :: "obj list option \<Rightarrow> string \<Rightarrow> js_error + obj list" where
  "processGenericGroupBy data originalQuery =
     (let limit = (case rx_exec re_limit originalQuery of
                     None \<Rightarrow> Some 100
                   | Some limitMatch \<Rightarrow> parseInt (group (groups limitMatch) 1))
      in case data of
           None \<Rightarrow> Inl TypeError
         | Some rows \<Rightarrow> (case limit of None \<Rightarrow> Inr [] | Some n \<Rightarrow> Inr (take n rows)))"

section \<open>\<open>executeConvertedQuery\<close>\<close>

text \<open>
  The database client is a parameter. \<open>select_all t n\<close> is the outcome of
  \<open>supabase.from(t).select('*').limit(n)\<close>: an error with its message, an exception, or
  the data (\<open>None\<close> for \<open>null\<close>). \<open>rpc_execute_raw_sql q\<close> is what the stored procedure
  \<open>execute_raw_sql\<close> returns for the query \<open>q\<close>: \<open>Some\<close> data when there is no error and the
  data is not \<open>null\<close>, and \<open>None\<close> otherwise, also when the call raises.
\<close>

datatype fetch_result =
    Fetch_error string
  | Fetch_raised string
  | Fetched "obj list option"

record supabase =
  select_all :: "string \<Rightarrow> nat \<Rightarrow> fetch_result"
  rpc_execute_raw_sql :: "string \<Rightarrow> obj list option"

text \<open>The calls made to the database, in order.\<close>

datatype db_call =
    Select_all string nat
  | Rpc_execute_raw_sql string

text \<open>The errors that \<open>executeConvertedQuery\<close> throws.\<close>

datatype failure_cause =
    Query_execution_failed string   \<comment> \<open>\<open>'Query execution failed: ' + error.message\<close>\<close>
  | Fetch_exception string
  | Raised js_error

datatype exec_error =
    Cannot_parse_table_name           \<comment> \<open>\<open>'Cannot parse table name from converted query'\<close>\<close>
  | Converted_query_execution_failed failure_cause
  | Query_conversion_not_supported    \<comment> \<open>\<open>'Query conversion not supported for this type of query'\<close>\<close>

text \<open>
  \<open>/from\s+([a-z0-9_]+)/i\<close>; under the \<open>i\<close> flag the class \<open>[a-z0-9_]\<close> matches the
  upper-case letters too, so it is \<open>\w\<close>.
\<close>

definition re_from :: "rx list" where
  "re_from = litI ''from'' @ [Plus Space, Open 1, Plus Word, Close 1]"

text \<open>\<open>lowerQuery.match(/from\s+([a-z0-9_]+)/i)?.[1]\<close>\<close>

definition table_name :: "string \<Rightarrow> string option" where
  "table_name lowerQuery =
     (case rx_exec re_from lowerQuery of
        None \<Rightarrow> None
      | Some fromMatch \<Rightarrow> group (groups fromMatch) 1)"

definition canProcess :: "string \<Rightarrow> bool" where
  "canProcess lowerQuery =
     ((str_includes lowerQuery ''date_part'' \<or>
       str_includes lowerQuery ''date_trunc'' \<or>
       str_includes lowerQuery ''extract'' \<or>
       str_includes lowerQuery ''group by'') \<and> str_includes lowerQuery ''from'')"

definition wrap_failure :: "js_error + obj list \<Rightarrow> exec_error + obj list" where
  "wrap_failure r =
     (case r of
        Inl e \<Rightarrow> Inl (Converted_query_execution_failed (Raised e))
      | Inr rows \<Rightarrow> Inr rows)"

definition executeConvertedQuery ::
  "host \<Rightarrow> supabase \<Rightarrow> string \<Rightarrow> (exec_error + obj list) \<times> db_call list"
where
  "executeConvertedQuery h sb query =
     (let lowerQuery = toLowerCase query in
      if canProcess lowerQuery then
        (case table_name lowerQuery of
           None \<Rightarrow> (Inl Cannot_parse_table_name, [])
         | Some tableName \<Rightarrow>
             if tableName = [] then (Inl Cannot_parse_table_name, [])
             else
               (case select_all sb tableName 10000 of
                  Fetch_error msg \<Rightarrow>
                    (Inl (Converted_query_execution_failed (Query_execution_failed msg)),
                     [Select_all tableName 10000])
                | Fetch_raised msg \<Rightarrow>
                    (Inl (Converted_query_execution_failed (Fetch_exception msg)),
                     [Select_all tableName 10000])
                | Fetched data \<Rightarrow>
                    (wrap_failure
                       (if str_includes lowerQuery ''date_trunc''
                        then processDateTruncQuery h data query
                        else if str_includes lowerQuery ''date_part''
                                \<or> str_includes lowerQuery ''extract''
                        then processGroupByDatePart h data query
                        else processGenericGroupBy data query),
                     [Select_all tableName 10000])))
      else (Inl Query_conversion_not_supported, []))"

section \<open>The request handler: \<open>POST\<close>\<close>

text \<open>The probes of \<open>complexPatterns\<close>, in order.\<close>

definition followed_by_paren :: "string \<Rightarrow> rx list" where
  "followed_by_paren w = litI w @ [Star Space, Atom (Ch CHR ''('')]"

definition complexPatterns :: "rx list list" where
  "complexPatterns =
     [followed_by_paren ''extract'',
      followed_by_paren ''date_trunc'',
      litI ''case'' @ [Plus Space] @ litI ''when'',
      litI ''with'' @ [Plus Space, Plus Word, Plus Space] @ litI ''as'',
      litI ''window'' @ [Plus Space] @ litI ''functions'',
      [Atom (Ch CHR '':''), Atom (Ch CHR '':''), Plus WordBrackets],
      litI ''interval'' @ [Plus Space, Atom (Ch CHR 0x27)],
      followed_by_paren ''generate_series'',
      followed_by_paren ''array_agg'',
      followed_by_paren ''string_agg'',
      followed_by_paren ''coalesce'',
      followed_by_paren ''nullif'',
      followed_by_paren ''greatest'',
      followed_by_paren ''least'',
      litI ''count'' @ [Star Space, Atom (Ch CHR ''(''), Star Space] @ litI ''distinct'']"

text \<open>\<open>pattern.test(s)\<close>\<close>

definition test :: "rx list \<Rightarrow> string \<Rightarrow> bool" where
  "test r s = (rx_exec r s \<noteq> None)"

definition needsRawSQL :: "string \<Rightarrow> bool" where
  "needsRawSQL cleanedQuery = list_ex (\<lambda>pattern. test pattern cleanedQuery) complexPatterns"

text \<open>\<open>sqlQuery.trim().replace(/;$/, "")\<close>\<close>

definition cleaned :: "string \<Rightarrow> string" where
  "cleaned sqlQuery = replace_first [Atom (Ch CHR '';''), Eol] [] (trim sqlQuery)"

text \<open>
  The responses of the handler to a request whose body holds the string \<open>sqlQuery\<close>,
  up to the point where the table name of the query-builder strategy is known; what
  the query builder then answers is not modelled (\<open>Query_builder\<close>). \<open>configured\<close> says
  whether \<open>NEXT_PUBLIC_SUPABASE_URL\<close> is set.
\<close>

datatype response =
    Valid_sql_query_required                \<comment> \<open>status 400\<close>
  | Only_select_allowed                     \<comment> \<open>status 400\<close>
  | Database_not_configured                 \<comment> \<open>status 500\<close>
  | Converted_postgresql "obj list"         \<comment> \<open>status 200, with the aggregated data\<close>
  | Raw_sql "obj list"                      \<comment> \<open>status 200, with the data of the stored procedure\<close>
  | Could_not_parse_table_name              \<comment> \<open>status 400\<close>
  | Query_builder string                    \<comment> \<open>the query builder runs on that table\<close>

text \<open>Strategy 2, up to the table name.\<close>

definition strategy_2 :: "string \<Rightarrow> response" where
  "strategy_2 lowerQuery =
     (case table_name lowerQuery of
        None \<Rightarrow> Could_not_parse_table_name
      | Some tableName \<Rightarrow>
          if tableName = [] then Could_not_parse_table_name else Query_builder tableName)"

text \<open>The raw SQL fallback, followed by strategy 2.\<close>

definition raw_sql_fallback :: "supabase \<Rightarrow> string \<Rightarrow> db_call list \<Rightarrow> response \<times> db_call list" where
  "raw_sql_fallback sb cleanedQuery calls =
     (case rpc_execute_raw_sql sb cleanedQuery of
        Some rawData \<Rightarrow> (Raw_sql rawData, calls @ [Rpc_execute_raw_sql cleanedQuery])
      | None \<Rightarrow> (strategy_2 (toLowerCase cleanedQuery), calls @ [Rpc_execute_raw_sql cleanedQuery]))"

definition POST :: "host \<Rightarrow> bool \<Rightarrow> supabase \<Rightarrow> string \<Rightarrow> response \<times> db_call list" where
  "POST h configured sb sqlQuery =
     (if sqlQuery = [] \<or> trim sqlQuery = [] then (Valid_sql_query_required, [])
      else
        (let cleanedQuery = cleaned sqlQuery;
             lowerQuery = toLowerCase cleanedQuery
         in if \<not> startsWith lowerQuery ''select'' then (Only_select_allowed, [])
            else if \<not> configured then (Database_not_configured, [])
            else if needsRawSQL cleanedQuery then
              (let convertedQuery = convertPostgreSQLFunctions cleanedQuery
               in if convertedQuery \<noteq> cleanedQuery then
                    (case executeConvertedQuery h sb convertedQuery of
                       (Inr data, calls) \<Rightarrow> (Converted_postgresql data, calls)
                     | (Inl conversionError, calls) \<Rightarrow> raw_sql_fallback sb cleanedQuery calls)
                  else raw_sql_fallback sb cleanedQuery [])
            else (strategy_2 lowerQuery, [])))"


section \<open>Notions used in the statements\<close>

text \<open>
  What \<open>processDateTruncQuery\<close> reads from the query text: the precision and the
  column of the \<open>DATE_TRUNC\<close> call, the column trimmed and without a trailing cast.
\<close>

definition parsed_date_trunc :: "string \<Rightarrow> (string \<times> string) option" where
  "parsed_date_trunc q =
     (case rx_exec re_date_trunc q of
        None \<Rightarrow> None
      | Some dateTruncMatch \<Rightarrow>
          (case (group (groups dateTruncMatch) 1, group (groups dateTruncMatch) 2) of
             (Some precision, Some columnExpression) \<Rightarrow>
               Some (precision, replace_first re_cast_end [] (trim columnExpression))
           | _ \<Rightarrow> None))"







section \<open>Hosts, databases, rows and queries of the examples\<close>

text \<open>
  A host at UTC and a host at UTC+01:00, both with a \<open>Date.parse\<close> that rejects
  every string outside the modelled forms; a database whose every table holds one
  row, a user who signed up on 2024-03-14, and that has no stored procedure
  \<open>execute_raw_sql\<close>; and a database whose stored procedure answers every query with
  no rows.
\<close>

definition utc_host :: host where
  "utc_host = \<lparr>tz_minutes = 0, parse_other = (\<lambda>s. None)\<rparr>"

definition utc_plus_1_host :: host where
  "utc_plus_1_host = \<lparr>tz_minutes = 60, parse_other = (\<lambda>s. None)\<rparr>"

definition signup_row :: obj where
  "signup_row = [(''signup_date'', JStr ''2024-03-14'')]"

definition one_row_db :: supabase where
  "one_row_db =
     \<lparr>select_all = (\<lambda>t n. Fetched (Some [signup_row])),
      rpc_execute_raw_sql = (\<lambda>q. None)\<rparr>"

definition raw_sql_db :: supabase where
  "raw_sql_db =
     \<lparr>select_all = (\<lambda>t n. Fetched (Some [signup_row])),
      rpc_execute_raw_sql = (\<lambda>q. Some [])\<rparr>"


text \<open>
  A user created on Sunday 2024-03-10 at 05:00 local time, and three users of whom
  two were created in the same hour of the same day of the week.
\<close>

definition sunday_row :: obj where
  "sunday_row = [(''created_at'', JStr ''2024-03-10T05:00:00'')]"


definition week_query :: string where
  "week_query = ''SELECT DATE_TRUNC('week', signup_date) AS week FROM users GROUP BY week''"

definition week_count_query :: string where
  "week_count_query =
     ''SELECT DATE_TRUNC('week', signup_date) AS week, COUNT(user_id) AS user_count FROM users GROUP BY week ORDER BY week LIMIT 100''"


definition hour_dow_query :: string where
  "hour_dow_query =
     ''SELECT DATE_PART('hour', created_at) AS signup_hour, DATE_PART('dow', created_at) AS signup_day_of_week, COUNT(*) AS user_count FROM users GROUP BY 1, 2 LIMIT 5''"



section \<open>Substrings and characters\<close>

lemma str_includes_sublist: "str_includes s p = sublist p s"
  by (induction s) (auto simp: sublist_Cons_right)



lemma suffix_toLowerCase: "suffix t s \<Longrightarrow> suffix (toLowerCase t) (toLowerCase s)"
  by (auto simp: suffix_def toLowerCase_def)

lemma char_of_eq_iff: "char_of (n::nat) = c \<longleftrightarrow> n mod 256 = of_char c"
  by (metis of_char_of char_of_char)


lemma code_unit_canonicalize:
  "code_unit (canonicalize c) =
     (if 97 \<le> code_unit c \<and> code_unit c \<le> 122 then code_unit c - 32 else code_unit c)"
  by (auto simp: canonicalize_def code_unit_def Let_def)

lemma lower_char_code:
  "lower_char c =
     char_of (if (65 \<le> code_unit c \<and> code_unit c \<le> 90) \<or> (192 \<le> code_unit c \<and> code_unit c \<le> 214)
                 \<or> (216 \<le> code_unit c \<and> code_unit c \<le> 222)
              then code_unit c + 32 else code_unit c)"
  by (simp add: lower_char_def code_unit_def Let_def)

lemma canonicalize_lower:
  assumes "canonicalize c = canonicalize a"
  shows "lower_char c = lower_char a"
proof -
  from assms have "code_unit (canonicalize c) = code_unit (canonicalize a)"
    by simp
  then have
    "(if (65 \<le> code_unit c \<and> code_unit c \<le> 90) \<or> (192 \<le> code_unit c \<and> code_unit c \<le> 214)
          \<or> (216 \<le> code_unit c \<and> code_unit c \<le> 222)
      then code_unit c + 32 else code_unit c)
     = (if (65 \<le> code_unit a \<and> code_unit a \<le> 90) \<or> (192 \<le> code_unit a \<and> code_unit a \<le> 214)
          \<or> (216 \<le> code_unit a \<and> code_unit a \<le> 222)
      then code_unit a + 32 else code_unit a)"
    unfolding code_unit_canonicalize by (simp split: if_splits; arith)
  then show ?thesis
    by (simp only: lower_char_code)
qed

section \<open>Objects and maps\<close>











section \<open>Sorting\<close>








section \<open>The matcher\<close>

text \<open>
  The equations of the matcher for a quantifier or a character class are used by
  cases on the input, so that they do not unfold on an unknown input.
\<close>

lemma rx_match_Atom [simp]:
  "rx_match (Atom c # r) [] st = None"
  "rx_match (Atom c # r) (x # xs) st = (if cls_match c x then rx_match r xs st else None)"
  by simp_all

lemma rx_match_Star [simp]:
  "rx_match (Star c # r) [] st = rx_match r [] st"
  "rx_match (Star c # r) (x # xs) st =
     (if cls_match c x
      then (case rx_match (Star c # r) xs st of
              Some res \<Rightarrow> Some res
            | None \<Rightarrow> rx_match r (x # xs) st)
      else rx_match r (x # xs) st)"
  by simp_all

lemma rx_match_Plus [simp]:
  "rx_match (Plus c # r) [] st = None"
  "rx_match (Plus c # r) (x # xs) st = (if cls_match c x then rx_match (Star c # r) xs st else None)"
  by simp_all

declare rx_match.simps(2,3,4) [simp del]



lemma rx_match_Star_drop:
  "rx_match (Star c # r) s st = Some res \<Longrightarrow> \<exists>k. rx_match r (drop k s) st = Some res"
proof (induction s)
  case Nil
  then show ?case by simp
next
  case (Cons x xs)
  show ?case
  proof (cases "cls_match c x \<and> rx_match (Star c # r) xs st \<noteq> None")
    case True
    with Cons.prems have "rx_match (Star c # r) xs st = Some res" by auto
    from Cons.IH [OF this] obtain k where "rx_match r (drop k xs) st = Some res" ..
    then have "rx_match r (drop (Suc k) (x # xs)) st = Some res" by simp
    then show ?thesis ..
  next
    case False
    with Cons.prems have "rx_match r (drop 0 (x # xs)) st = Some res"
      by (cases "rx_match (Star c # r) xs st") (auto split: if_splits)
    then show ?thesis ..
  qed
qed

lemma rx_match_Plus_drop:
  "rx_match (Plus c # r) s st = Some res \<Longrightarrow> \<exists>k. rx_match r (drop k s) st = Some res"
proof (cases s)
  case Nil
  assume "rx_match (Plus c # r) s st = Some res"
  with Nil show ?thesis by simp
next
  case (Cons x xs)
  assume "rx_match (Plus c # r) s st = Some res"
  with Cons have "rx_match (Star c # r) xs st = Some res" by (auto split: if_splits)
  from rx_match_Star_drop [OF this] obtain k where "rx_match r (drop k xs) st = Some res" ..
  with Cons have "rx_match r (drop (Suc k) s) st = Some res" by simp
  then show ?thesis ..
qed

lemma litI_match_prefix:
  "rx_match (litI w @ r) t st = Some res \<Longrightarrow> prefix (toLowerCase w) (toLowerCase t)"
proof (induction w arbitrary: t)
  case Nil
  then show ?case by (simp add: toLowerCase_def)
next
  case (Cons c w)
  from Cons.prems obtain x xs where t: "t = x # xs" and c: "canonicalize x = canonicalize c"
    and m: "rx_match (litI w @ r) xs st = Some res"
    by (cases t) (auto simp: litI_def split: if_splits)
  from Cons.IH [OF m] canonicalize_lower [OF c] t show ?case
    by (simp add: toLowerCase_def litI_def)
qed








text \<open>A replacement leaves the text before the first match as it is.\<close>

lemma replace_g_skip:
  "(\<And>t. suffix t pre \<Longrightarrow> t \<noteq> [] \<Longrightarrow> rx_match r (t @ rest) mstate0 = None) \<Longrightarrow>
   replace_g r tpl (pre @ rest) = pre @ replace_g r tpl rest"
proof (induction pre)
  case Nil
  then show ?case by simp
next
  case (Cons c pre)
  have "rx_match r ((c # pre) @ rest) mstate0 = None"
    by (rule Cons.prems) simp_all
  moreover have "replace_g r tpl (pre @ rest) = pre @ replace_g r tpl rest"
    by (rule Cons.IH) (simp add: Cons.prems suffix_Cons)
  ultimately show ?case by simp
qed

lemma replace_g_no_match:
  assumes "\<And>t. suffix t s \<Longrightarrow> rx_match r t mstate0 = None"
  shows "replace_g r tpl s = s"
proof -
  have "replace_g r tpl (s @ []) = s @ replace_g r tpl []"
    by (rule replace_g_skip) (simp add: assms)
  moreover have "rx_match r [] mstate0 = None"
    by (rule assms) simp
  ultimately show ?thesis by simp
qed


section \<open>C1: the capability test of \<open>executeConvertedQuery\<close>\<close>

text \<open>
  C1, as the code has it: a converted query is rejected with the error
  ``Query conversion not supported for this type of query'' exactly when its
  lower-case text fails the test ``contains \<open>date_part\<close>, \<open>date_trunc\<close>, \<open>extract\<close> or
  \<open>group by\<close>, and contains \<open>from\<close>''; \<open>group by\<close> is one of four alternatives, not a
  further condition. A rejected query causes no call to the database.
\<close>

theorem conversion_not_supported_iff:
  "(fst (executeConvertedQuery h sb q) = Inl Query_conversion_not_supported
      \<longleftrightarrow> \<not> ((sublist ''date_part'' (toLowerCase q) \<or> sublist ''date_trunc'' (toLowerCase q)
               \<or> sublist ''extract'' (toLowerCase q) \<or> sublist ''group by'' (toLowerCase q))
              \<and> sublist ''from'' (toLowerCase q)))
   \<and> (fst (executeConvertedQuery h sb q) = Inl Query_conversion_not_supported
      \<longrightarrow> snd (executeConvertedQuery h sb q) = [])"
  by (auto simp: executeConvertedQuery_def canProcess_def Let_def str_includes_sublist
        wrap_failure_def
      split: option.splits fetch_result.splits sum.splits)

theorem conversion_not_supported_iff_witness:
  "fst (executeConvertedQuery utc_host one_row_db ''SELECT 1'') = Inl Query_conversion_not_supported
   \<and> snd (executeConvertedQuery utc_host one_row_db ''SELECT 1'') = []"
proof -
  have "\<not> sublist ''from'' (toLowerCase ''SELECT 1'')"
    by code_simp
  with conversion_not_supported_iff [of utc_host one_row_db "''SELECT 1''"]
  show ?thesis
    by blast
qed

text \<open>
  The claim as the specification states it fails on a query with a date function
  and a \<open>FROM\<close> but no \<open>GROUP BY\<close>: the code passes it and aggregates the fetched rows.
\<close>

theorem group_by_not_required_counterexample:
  "\<not> str_includes (toLowerCase ''SELECT DATE_PART('hour', signup_date) AS signup_hour FROM users'')
        ''group by''
   \<and> canProcess (toLowerCase ''SELECT DATE_PART('hour', signup_date) AS signup_hour FROM users'')
   \<and> executeConvertedQuery utc_host one_row_db
        ''SELECT DATE_PART('hour', signup_date) AS signup_hour FROM users''
      = (Inr [[(''signup_hour'', JNum 0), (''user_count'', JNum 1)]], [Select_all ''users'' 10000])"
  by code_simp

section \<open>C2 and C8: the syntax normalizer\<close>

text \<open>A match of a pattern starts with its first literal word, or holds its \<open>::\<close>.\<close>

lemma cast_match_sublist:
  assumes "rx_match re_cast t st = Some res"
  shows "sublist ''::'' t"
proof -
  from assms obtain st1 where
    "rx_match (Plus Word # [Close 1, Atom (Ch CHR '':''), Atom (Ch CHR '':''), Plus WordBrackets])
       t st1 = Some res"
    by (auto simp: re_cast_def)
  from rx_match_Plus_drop [OF this] obtain k where
    "rx_match [Close 1, Atom (Ch CHR '':''), Atom (Ch CHR '':''), Plus WordBrackets] (drop k t) st1
       = Some res" ..
  then have "prefix ''::'' (drop k t)"
    by (cases "drop k t"; cases "tl (drop k t)") (auto split: if_splits)
  then have "sublist ''::'' (drop k t)" by (rule prefix_imp_sublist)
  then show ?thesis
    using sublist_drop sublist_order.order_trans by blast
qed

lemma extract_match_prefix:
  assumes "rx_match re_extract t st = Some res"
  shows "prefix ''extract'' (toLowerCase t)"
proof -
  have "toLowerCase ''EXTRACT'' = ''extract''"
    by (simp add: toLowerCase_def lower_char_def code_unit_def char_of_eq_iff)
  with litI_match_prefix [of "''EXTRACT''" _ t st res] assms show ?thesis
    by (simp add: re_extract_def)
qed

lemma no_extract_no_match:
  assumes "\<not> sublist ''extract'' (toLowerCase s)" "suffix t s"
  shows "rx_match re_extract t st = None"
proof (rule ccontr)
  assume "rx_match re_extract t st \<noteq> None"
  then obtain res where "rx_match re_extract t st = Some res" by auto
  then have "prefix ''extract'' (toLowerCase t)" by (rule extract_match_prefix)
  with suffix_toLowerCase [OF assms(2)] have "sublist ''extract'' (toLowerCase s)"
    by (auto simp: sublist_altdef')
  with assms(1) show False ..
qed

lemma no_cast_no_match:
  assumes "\<not> sublist ''::'' s" "suffix t s"
  shows "rx_match re_cast t st = None"
proof (rule ccontr)
  assume "rx_match re_cast t st \<noteq> None"
  then obtain res where "rx_match re_cast t st = Some res" by auto
  then have "sublist ''::'' t" by (rule cast_match_sublist)
  with assms(2) have "sublist ''::'' s"
    by (meson sublist_order.order_trans suffix_imp_sublist)
  with assms(1) show False ..
qed

text \<open>
  A text without the word \<open>extract\<close>, in any letter case, and without \<open>::\<close> passes
  through the normalizer unchanged.
\<close>

lemma convert_unchanged:
  assumes "\<not> sublist ''extract'' (toLowerCase s)" "\<not> sublist ''::'' s"
  shows "convertPostgreSQLFunctions s = s"
proof -
  have "replace_g re_extract date_part_template s = s"
    by (rule replace_g_no_match) (rule no_extract_no_match [OF assms(1)])
  moreover have "replace_g re_cast [Ref 1] s = s"
    by (rule replace_g_no_match) (rule no_cast_no_match [OF assms(2)])
  ultimately show ?thesis
    by (simp add: convertPostgreSQLFunctions_def)
qed

text \<open>
  C2, as the code has it: a second application of the normalizer changes nothing
  when the first one has left neither the word \<open>extract\<close> (in any letter case) nor
  \<open>::\<close> in the text. Each rule is one pass from left to right over the text, so a
  cast of a cast, or an \<open>EXTRACT\<close> inside the argument of another, is left for a
  second application.
\<close>

theorem convert_twice_when_nothing_left:
  assumes "\<not> sublist ''extract'' (toLowerCase (convertPostgreSQLFunctions q))"
    and "\<not> sublist ''::'' (convertPostgreSQLFunctions q)"
  shows "convertPostgreSQLFunctions (convertPostgreSQLFunctions q) = convertPostgreSQLFunctions q"
  using assms by (rule convert_unchanged)

theorem convert_twice_when_nothing_left_witness:
  "\<not> sublist ''extract'' (toLowerCase (convertPostgreSQLFunctions
        ''SELECT EXTRACT(HOUR FROM ts) AS h, signup_date::date FROM users''))
   \<and> \<not> sublist ''::'' (convertPostgreSQLFunctions
        ''SELECT EXTRACT(HOUR FROM ts) AS h, signup_date::date FROM users'')
   \<and> convertPostgreSQLFunctions (convertPostgreSQLFunctions
        ''SELECT EXTRACT(HOUR FROM ts) AS h, signup_date::date FROM users'')
      = convertPostgreSQLFunctions
          ''SELECT EXTRACT(HOUR FROM ts) AS h, signup_date::date FROM users''"
proof -
  have a: "\<not> sublist ''extract'' (toLowerCase (convertPostgreSQLFunctions
             ''SELECT EXTRACT(HOUR FROM ts) AS h, signup_date::date FROM users''))"
    by code_simp
  have b: "\<not> sublist ''::'' (convertPostgreSQLFunctions
             ''SELECT EXTRACT(HOUR FROM ts) AS h, signup_date::date FROM users'')"
    by code_simp
  from convert_twice_when_nothing_left [OF a b] a b show ?thesis
    by blast
qed

text \<open>The normalizer is not idempotent: of two casts in a row it strips one.\<close>

theorem convert_not_idempotent_counterexample:
  "convertPostgreSQLFunctions ''SELECT signup_date::text::date FROM users''
     = ''SELECT signup_date::date FROM users''
   \<and> convertPostgreSQLFunctions
       (convertPostgreSQLFunctions ''SELECT signup_date::text::date FROM users'')
     = ''SELECT signup_date FROM users''
   \<and> convertPostgreSQLFunctions
       (convertPostgreSQLFunctions ''SELECT signup_date::text::date FROM users'')
     \<noteq> convertPostgreSQLFunctions ''SELECT signup_date::text::date FROM users''"
  by code_simp











section \<open>C3: the week bucket of Path A\<close>

text \<open>
  C3 fails on a host east of UTC. On a host at UTC+01:00 the row of 2024-03-14 is
  put in the bucket \<open>2024-03-10\<close>, a Sunday: the code moves the date to the local
  midnight of Monday 2024-03-11, which is 2024-03-10T23:00:00Z, and
  \<open>toISOString\<close> writes the UTC date.
\<close>

theorem week_label_east_of_utc:
  "truncate_date utc_plus_1_host ''week'' (new_Date utc_plus_1_host (JStr ''2024-03-14''))
     = Inr ''2024-03-10''
   \<and> processDateTruncQuery utc_plus_1_host (Some [signup_row]) week_query
     = Inr [[(''week'', JStr ''2024-03-10'')]]"
  by code_simp

text \<open>On a host at UTC the label is the Monday.\<close>

lemma week_label_at_utc:
  "truncate_date utc_host ''week'' (new_Date utc_host (JStr ''2024-03-14'')) = Inr ''2024-03-11''
   \<and> processDateTruncQuery utc_host (Some [signup_row]) week_query
     = Inr [[(''week'', JStr ''2024-03-11'')]]"
  by code_simp

text \<open>
  When the query has a \<open>)\<close> after the \<open>DATE_TRUNC\<close> call and no \<open>:\<close> in between, the
  group \<open>([^:]+)\<close> runs to the last such \<open>)\<close>, the column is not a column of the row,
  and the row is in no bucket at all.
\<close>

lemma week_count_query_buckets_nothing:
  "parsed_date_trunc week_count_query
     = Some (''week'', ''signup_date) AS week, COUNT(user_id'')
   \<and> processDateTruncQuery utc_host (Some [signup_row]) week_count_query = Inr []"
  by code_simp

section \<open>C4: the output columns of Path B\<close>

text \<open>
  C4 fails for a Sunday. For a user created on Sunday 2024-03-10 at 05:00 the key
  tuple is \<open>[5, 0]\<close>, and the field \<open>signup_day_of_week\<close> of the result row is 5, the
  hour: \<open>keys[1] || keys[0]\<close> takes the first component when the second is zero.
\<close>

theorem sunday_day_of_week_is_the_hour:
  "match_g re_date_part hour_dow_query
     = Some [''DATE_PART('hour', created_at)'', ''DATE_PART('dow', created_at)'']
   \<and> date_part_keys utc_host sunday_row
       [''DATE_PART('hour', created_at)'', ''DATE_PART('dow', created_at)'']
     = Inr [JNum 5, JNum 0]
   \<and> processGroupByDatePart utc_host (Some [sunday_row]) hour_dow_query
     = Inr [[(''signup_hour'', JNum 5), (''signup_day_of_week'', JNum 5), (''user_count'', JNum 1)]]"
  by code_simp

section \<open>C5: order, cap and counts of Path B\<close>



















section \<open>C6: Path A without a \<open>DATE_TRUNC\<close> call\<close>

text \<open>
  C6: when the pattern \<open>DATE_TRUNC('<precision>', <column>)\<close> does not match the query
  text, \<open>processDateTruncQuery\<close> returns the empty result set and raises no error,
  whatever the rows are.
\<close>

theorem date_trunc_unparsed_is_empty:
  "rx_exec re_date_trunc q = None \<Longrightarrow> processDateTruncQuery h data q = Inr []"
  by (simp add: processDateTruncQuery_def split: option.splits)

theorem date_trunc_unparsed_is_empty_witness:
  "rx_exec re_date_trunc ''SELECT date_trunc(week, signup_date) FROM users'' = None
   \<and> processDateTruncQuery utc_host (Some [signup_row])
        ''SELECT date_trunc(week, signup_date) FROM users'' = Inr []"
proof -
  have a: "rx_exec re_date_trunc ''SELECT date_trunc(week, signup_date) FROM users'' = None"
    by code_simp
  from a date_trunc_unparsed_is_empty [OF a, of utc_host "Some [signup_row]"]
  show ?thesis
    by simp
qed

section \<open>C7: queries without a table name\<close>

text \<open>
  C7, as the code has it. When no \<open>FROM <identifier>\<close> is found in a converted query,
  \<open>executeConvertedQuery\<close> fails without a call to the database: with ``Cannot parse
  table name from converted query'' if the query passes the capability test, and
  with ``Query conversion not supported for this type of query'' otherwise. The
  handler catches that error. When neither the cleaned query nor its conversion has
  a \<open>FROM <identifier>\<close>, the handler fetches no table, and it answers ``Could not
  parse table name from query'' unless it rejected the request earlier or the
  stored procedure \<open>execute_raw_sql\<close> returned data, which it then sends as a
  success.
\<close>

theorem no_table_name:
  "(table_name (toLowerCase query) = None \<longrightarrow>
      executeConvertedQuery h sb query =
        (Inl (if canProcess (toLowerCase query) then Cannot_parse_table_name
              else Query_conversion_not_supported), []))
   \<and> (table_name (toLowerCase (cleaned sqlQuery)) = None \<and>
      table_name (toLowerCase (convertPostgreSQLFunctions (cleaned sqlQuery))) = None \<longrightarrow>
      POST h configured sb sqlQuery =
        (if sqlQuery = [] \<or> trim sqlQuery = [] then (Valid_sql_query_required, [])
         else if \<not> startsWith (toLowerCase (cleaned sqlQuery)) ''select''
         then (Only_select_allowed, [])
         else if \<not> configured then (Database_not_configured, [])
         else if needsRawSQL (cleaned sqlQuery)
         then (case rpc_execute_raw_sql sb (cleaned sqlQuery) of
                 Some rawData \<Rightarrow> (Raw_sql rawData, [Rpc_execute_raw_sql (cleaned sqlQuery)])
               | None \<Rightarrow> (Could_not_parse_table_name, [Rpc_execute_raw_sql (cleaned sqlQuery)]))
         else (Could_not_parse_table_name, [])))"
  by (auto simp: executeConvertedQuery_def POST_def Let_def raw_sql_fallback_def strategy_2_def
      split: option.splits)

theorem no_table_name_witness:
  "table_name (toLowerCase ''SELECT EXTRACT(HOUR FROM )'') = None
   \<and> executeConvertedQuery utc_host one_row_db ''SELECT EXTRACT(HOUR FROM )''
       = (Inl Cannot_parse_table_name, [])
   \<and> table_name (toLowerCase (cleaned ''SELECT now()::date;'')) = None
   \<and> table_name (toLowerCase (convertPostgreSQLFunctions (cleaned ''SELECT now()::date;''))) = None
   \<and> POST utc_host True one_row_db ''SELECT now()::date;''
       = (Could_not_parse_table_name, [Rpc_execute_raw_sql ''SELECT now()::date''])"
proof -
  have a: "table_name (toLowerCase ''SELECT EXTRACT(HOUR FROM )'') = None"
    by code_simp
  have b: "canProcess (toLowerCase ''SELECT EXTRACT(HOUR FROM )'')"
    by code_simp
  have c: "table_name (toLowerCase (cleaned ''SELECT now()::date;'')) = None"
    by code_simp
  have d: "table_name (toLowerCase (convertPostgreSQLFunctions (cleaned ''SELECT now()::date;'')))
             = None"
    by code_simp
  have e: "cleaned ''SELECT now()::date;'' = ''SELECT now()::date''"
    by code_simp
  have f: "''SELECT now()::date;'' \<noteq> [] \<and> trim ''SELECT now()::date;'' \<noteq> []
           \<and> startsWith (toLowerCase ''SELECT now()::date'') ''select''
           \<and> needsRawSQL ''SELECT now()::date''
           \<and> rpc_execute_raw_sql one_row_db ''SELECT now()::date'' = None"
    by code_simp
  from no_table_name [of "''SELECT EXTRACT(HOUR FROM )''" utc_host one_row_db
         "''SELECT now()::date;''" True] a b c d
  have "executeConvertedQuery utc_host one_row_db ''SELECT EXTRACT(HOUR FROM )''
          = (Inl Cannot_parse_table_name, [])"
    and "POST utc_host True one_row_db ''SELECT now()::date;''
          = (Could_not_parse_table_name, [Rpc_execute_raw_sql ''SELECT now()::date''])"
    by (simp_all add: e f)
  with a c d show ?thesis
    by simp
qed

text \<open>
  The claim as the specification states it fails twice. A converted query without
  any \<open>from\<close> is rejected as unsupported, not for its table name; and a request whose
  query has no table is answered with a success, here an empty one, when the stored
  procedure returns data.
\<close>

theorem no_table_name_counterexample:
  "table_name (toLowerCase ''SELECT DATE_PART('hour', ts)'') = None
   \<and> executeConvertedQuery utc_host one_row_db ''SELECT DATE_PART('hour', ts)''
       = (Inl Query_conversion_not_supported, [])
   \<and> table_name (toLowerCase (cleaned ''SELECT now()::date'')) = None
   \<and> POST utc_host True raw_sql_db ''SELECT now()::date''
       = (Raw_sql [], [Rpc_execute_raw_sql ''SELECT now()::date''])"
  by code_simp

section \<open>C9 and C10: the buckets of Path A\<close>
























end
